theory Spec2Isabelle
  imports Main "HOL-Library.Sublist"
begin

section \<open>The nftns package: nftables configuration inside a network namespace\<close>

text \<open>
  A shallow embedding of \<^verbatim>\<open>nft/nftns/nftns.go\<close>. Go strings and byte slices are
  \<open>string\<close> (a list of bytes); a byte slice that the code tests against \<^verbatim>\<open>nil\<close>
  is a \<open>string option\<close>, \<open>None\<close> being \<^verbatim>\<open>nil\<close>. A Go \<^verbatim>\<open>error\<close> is a value with a
  rendered message and, when it was built with the \<^verbatim>\<open>%w\<close> verb, the error it wraps.
  The package-level variables, the documents allocated so far and the calls made to the
  operating system are threaded through every function as an explicit state.
\<close>

subsection \<open>Errors and formatting\<close>

datatype go_error = GoError (Error: string) (Unwrap: "go_error option")

definition errors_New :: "string \<Rightarrow> go_error" where
  "errors_New msg = GoError msg None"

fun strings_Join :: "string list \<Rightarrow> string \<Rightarrow> string" where
  "strings_Join [] sep = []"
| "strings_Join [x] sep = x"
| "strings_Join (x # y # ys) sep = x @ sep @ strings_Join (y # ys) sep"

text \<open>\<^verbatim>\<open>string(b)\<close> of a byte slice: the empty string for \<^verbatim>\<open>nil\<close>.\<close>

definition string_of_bytes :: "string option \<Rightarrow> string" where
  "string_of_bytes b = (case b of None \<Rightarrow> [] | Some bs \<Rightarrow> bs)"

definition quote :: string where
  "quote = [CHR 0x27]"

subsection \<open>Constants and data of the package\<close>

definition cmdFile :: string where "cmdFile = ''-f''"
definition cmdJSON :: string where "cmdJSON = ''-j''"
definition cmdList :: string where "cmdList = ''list''"
definition cmdRuleset :: string where "cmdRuleset = ''ruleset''"
definition cmdStdin :: string where "cmdStdin = ''-''"

text \<open>
  \<^verbatim>\<open>nftconfig.Config\<close> is declared outside this file; the file uses its field
  \<^verbatim>\<open>Nftables\<close>, a slice of \<^verbatim>\<open>schema.Nftable\<close> (the type parameter \<open>'n\<close>), which
  may be \<^verbatim>\<open>nil\<close>. \<^verbatim>\<open>Config\<close> embeds it and adds \<^verbatim>\<open>NetNSPath\<close>.
\<close>

record 'n nftconfig_Config =
  Nftables :: "'n list option"

record 'n Config = "'n nftconfig_Config" +
  NetNSPath :: string

text \<open>
  \<^verbatim>\<open>exec.Cmd\<close> of the Go standard library, with the fields the package reads or
  writes: \<^verbatim>\<open>Path\<close>, \<^verbatim>\<open>Args\<close> (the argument vector, the command name first),
  \<^verbatim>\<open>Err\<close> (a failed lookup of the name, reported by \<^verbatim>\<open>Run\<close>) and \<^verbatim>\<open>Stdin\<close>
  (\<open>None\<close>: no reader attached; \<open>Some b\<close>: a buffer holding \<open>b\<close>).
\<close>

record Cmd =
  Path :: string
  Args :: "string list"
  Err :: "go_error option"
  Stdin :: "string option"

text \<open>
  What the package does to the world, in order: a call of \<^verbatim>\<open>exec.LookPath\<close>, a
  trace record handed to the logger, a call of \<^verbatim>\<open>Run\<close> on a command.
\<close>

datatype event = LookPathCall string | LogTrace string | RunCmd Cmd

text \<open>
  The surroundings of one call. \<open>LookPath\<close> is \<^verbatim>\<open>exec.LookPath\<close>, returning a path
  and an error as in Go. \<open>StartWait\<close> is the operating system running a command that
  \<^verbatim>\<open>Run\<close> accepted: the error \<^verbatim>\<open>Run\<close> returns (\<open>None\<close> when the process started,
  its streams were copied and it exited with status zero) and the bytes written to
  standard output and standard error. \<open>Marshal\<close> and \<open>Unmarshal\<close> are the JSON codec
  of the schema: \<open>Unmarshal data cur\<close> decodes \<open>data\<close> over the entity sequence
  \<open>cur\<close> and returns the sequence it leaves behind and an error.
\<close>

record 'n env =
  LookPath :: "string \<Rightarrow> string \<times> go_error option"
  StartWait :: "Cmd \<Rightarrow> go_error option \<times> string \<times> string"
  Marshal :: "'n list option \<Rightarrow> string option \<times> go_error option"
  Unmarshal :: "string \<Rightarrow> 'n list option \<Rightarrow> 'n list option \<times> go_error option"

text \<open>
  The state: the two package variables, the documents allocated so far (a pointer to a
  \<^verbatim>\<open>Config\<close> is its index in \<open>heap\<close>; an index outside the heap stands for
  \<^verbatim>\<open>nil\<close>), and the events so far.
\<close>

record 'n state =
  NSEnterBinPath :: string
  NFTBinPath :: string
  heap :: "'n Config list"
  trace :: "event list"

definition emit :: "event \<Rightarrow> 'n state \<Rightarrow> 'n state" where
  "emit e s = s\<lparr>trace := trace s @ [e]\<rparr>"

text \<open>The commands run and the names looked up, read off a trace.\<close>

fun runs :: "event list \<Rightarrow> Cmd list" where
  "runs [] = []"
| "runs (RunCmd c # es) = c # runs es"
| "runs (e # es) = runs es"

fun lookups :: "event list \<Rightarrow> string list" where
  "lookups [] = []"
| "lookups (LookPathCall n # es) = n # lookups es"
| "lookups (e # es) = lookups es"

subsection \<open>The standard library: os/exec\<close>

text \<open>\<^verbatim>\<open>filepath.Base\<close> on Unix: the last element of a path.\<close>

definition filepath_Base :: "string \<Rightarrow> string" where
  "filepath_Base path =
     (if path = [] then ''.''
      else let stripped = rev (dropWhile (\<lambda>c. c = CHR ''/'') (rev path));
               last_elem = rev (takeWhile (\<lambda>c. c \<noteq> CHR ''/'') (rev stripped))
           in if last_elem = [] then ''/'' else last_elem)"

text \<open>
  \<^verbatim>\<open>exec.Command(name, arg...)\<close>: \<^verbatim>\<open>Args\<close> is the name followed by the arguments.
  A name without a directory part is looked up: a path found replaces \<^verbatim>\<open>Path\<close>, an
  error is kept in \<^verbatim>\<open>Err\<close>.
\<close>

definition exec_Command :: "'n env \<Rightarrow> string \<Rightarrow> string list \<Rightarrow> Cmd" where
  "exec_Command env name arg =
     (let cmd = \<lparr>Path = name, Args = name # arg, Err = None, Stdin = None\<rparr>
      in if filepath_Base name = name then
           (let (lp, err) = LookPath env name;
                cmd1 = (if lp \<noteq> [] then cmd\<lparr>Path := lp\<rparr> else cmd)
            in case err of None \<Rightarrow> cmd1 | Some e \<Rightarrow> cmd1\<lparr>Err := Some e\<rparr>)
         else cmd)"

text \<open>
  The call of \<^verbatim>\<open>exec.LookPath\<close> that \<^verbatim>\<open>exec.Command\<close> makes for a name without a
  directory part, as an event.
\<close>

definition Command_events :: "string \<Rightarrow> event list" where
  "Command_events name = (if filepath_Base name = name then [LookPathCall name] else [])"

text \<open>
  \<^verbatim>\<open>cmd.Run()\<close>: a command whose lookup failed reports that error, a command with an
  empty path reports \<^verbatim>\<open>exec: no command\<close>, both without starting anything; any other
  command is started and waited for.
\<close>

definition Cmd_Run :: "'n env \<Rightarrow> Cmd \<Rightarrow> go_error option \<times> string \<times> string" where
  "Cmd_Run env cmd =
     (case Err cmd of
        Some e \<Rightarrow> (Some e, [], [])
      | None \<Rightarrow>
          if Path cmd = [] then (Some (errors_New ''exec: no command''), [], [])
          else StartWait env cmd)"

subsection \<open>The collaborator: ToJSON and FromJSON\<close>

text \<open>
  Modelled from the spec: \<^verbatim>\<open>ToJSON\<close> is a method of the embedded
  \<^verbatim>\<open>nftconfig.Config\<close>, declared in \<^verbatim>\<open>nft/config\<close>, which is not part of this
  file. The spec gives it as an opaque boundary, \<^verbatim>\<open>ToJSON() -> bytes\<close>, that
  encodes the document's entity sequence and changes nothing. It is promoted to
  \<^verbatim>\<open>Config\<close>, so it takes any record that extends the embedded one and sees
  its \<^verbatim>\<open>Nftables\<close> only.
\<close>

definition ToJSON ::
  "'n env \<Rightarrow> ('n, 'a) nftconfig_Config_scheme \<Rightarrow> string option \<times> go_error option" where
  "ToJSON env c = Marshal env (Nftables c)"

text \<open>
  Modelled from the spec: \<^verbatim>\<open>FromJSON\<close>, the other method of the embedded
  \<^verbatim>\<open>nftconfig.Config\<close> declared in \<^verbatim>\<open>nft/config\<close>. The spec gives it as
  \<^verbatim>\<open>FromJSON(bytes) -> error\<close>, decoding the bytes into the document's entity
  sequence. The receiver is returned as the call leaves it, decoded or not, next to the
  error.
\<close>

definition FromJSON ::
  "'n env \<Rightarrow> ('n, 'a) nftconfig_Config_scheme \<Rightarrow> string \<Rightarrow>
     ('n, 'a) nftconfig_Config_scheme \<times> go_error option" where
  "FromJSON env c data =
     (let (nfts, err) = Unmarshal env data (Nftables c) in (c\<lparr>Nftables := nfts\<rparr>, err))"

subsection \<open>The package\<close>

text \<open>The variable initialisers and \<^verbatim>\<open>init()\<close>: both paths are looked up once.\<close>

definition start :: "'n state" where
  "start = \<lparr>NSEnterBinPath = ''nsenter'', NFTBinPath = ''nft'', heap = [], trace = []\<rparr>"

definition init :: "'n env \<Rightarrow> 'n state \<Rightarrow> 'n state" where
  "init env s =
     (let s1 = (emit (LookPathCall ''nsenter'') s)\<lparr>NSEnterBinPath := fst (LookPath env ''nsenter'')\<rparr>
      in (emit (LookPathCall ''nft'') s1)\<lparr>NFTBinPath := fst (LookPath env ''nft'')\<rparr>)"

text \<open>
  \<^verbatim>\<open>New\<close>: the document is allocated first, with a \<^verbatim>\<open>nil\<close> entity sequence; the
  lookup runs only when \<^verbatim>\<open>NSEnterBinPath\<close> is empty; the entity sequence is set to
  the empty slice last. On the error return the allocated document is garbage: it
  stays in \<open>heap\<close> and nothing points to it.
\<close>

definition New_finish :: "nat \<Rightarrow> 'n state \<Rightarrow> (go_error + nat) \<times> 'n state" where
  "New_finish c s = (Inr c, s\<lparr>heap := (heap s)[c := (heap s ! c)\<lparr>Nftables := Some []\<rparr>]\<rparr>)"

definition New :: "'n env \<Rightarrow> string \<Rightarrow> 'n state \<Rightarrow> (go_error + nat) \<times> 'n state" where
  "New env netNSPath s =
     (let c = length (heap s);
          s1 = s\<lparr>heap := heap s @ [\<lparr>Nftables = None, NetNSPath = netNSPath\<rparr>]\<rparr>
      in if NSEnterBinPath s1 = [] then
           (let (path, err) = LookPath env ''nsenter'';
                s2 = emit (LookPathCall ''nsenter'') s1
            in case err of
                 Some e \<Rightarrow> (Inl e, s2)
               | None \<Rightarrow> New_finish c (s2\<lparr>NSEnterBinPath := path\<rparr>))
         else New_finish c s1)"

text \<open>
  \<^verbatim>\<open>execCommand\<close>: the argument vector, the trace record, the command (with the
  lookup \<^verbatim>\<open>exec.Command\<close> makes for a bare name) and its input, the run, and the
  error built by \<^verbatim>\<open>fmt.Errorf\<close> with \<^verbatim>\<open>%w\<close> for the error of \<^verbatim>\<open>Run\<close>.
\<close>

definition fullArgs :: "'n state \<Rightarrow> string \<Rightarrow> string list \<Rightarrow> string list" where
  "fullArgs s netNSPath args = [''--net='' @ netNSPath, ''--'', NFTBinPath s] @ args"

definition traceMsg :: "'n state \<Rightarrow> string list \<Rightarrow> string" where
  "traceMsg s fa =
     ''Running nsenter command: '' @ NSEnterBinPath s @ '' ['' @ strings_Join fa '' '' @ '']''"

definition buildCmd :: "'n env \<Rightarrow> 'n state \<Rightarrow> string \<Rightarrow> string option \<Rightarrow> string list \<Rightarrow> Cmd" where
  "buildCmd env s netNSPath input args =
     (let cmd = exec_Command env (NSEnterBinPath s) (fullArgs s netNSPath args)
      in case input of None \<Rightarrow> cmd | Some b \<Rightarrow> cmd\<lparr>Stdin := Some b\<rparr>)"

definition execError :: "Cmd \<Rightarrow> go_error \<Rightarrow> string option \<Rightarrow> string \<Rightarrow> string \<Rightarrow> go_error" where
  "execError cmd err input out errout =
     GoError (''failed to execute '' @ Path cmd @ '' '' @ strings_Join (Args cmd) '' '' @ '': ''
              @ Error err
              @ '' stdin:'' @ quote @ string_of_bytes input @ quote
              @ '' stdout:'' @ quote @ out @ quote
              @ '' stderr:'' @ quote @ errout @ quote)
             (Some err)"

definition execCommand ::
  "'n env \<Rightarrow> string \<Rightarrow> string option \<Rightarrow> string list \<Rightarrow> 'n state \<Rightarrow> (go_error + string) \<times> 'n state" where
  "execCommand env netNSPath input args s =
     (let s1 = emit (LogTrace (traceMsg s (fullArgs s netNSPath args))) s;
          cmd = buildCmd env s netNSPath input args;
          s1c = s1\<lparr>trace := trace s1 @ Command_events (NSEnterBinPath s)\<rparr>;
          (err, out, errout) = Cmd_Run env cmd;
          s2 = emit (RunCmd cmd) s1c
      in case err of
           Some e \<Rightarrow> (Inl (execError cmd e input out errout), s2)
         | None \<Rightarrow> (Inr out, s2))"

text \<open>
  \<^verbatim>\<open>ReadConfig\<close>: the command runs first, then \<^verbatim>\<open>New\<close>, then \<^verbatim>\<open>FromJSON\<close> on the
  new document; a decode error is rendered with \<^verbatim>\<open>%v\<close> into a new error.
\<close>

definition listError :: "go_error \<Rightarrow> go_error" where
  "listError err = GoError (''failed to list ruleset: '' @ Error err) None"

definition ReadConfig :: "'n env \<Rightarrow> string \<Rightarrow> 'n state \<Rightarrow> (go_error + nat) \<times> 'n state" where
  "ReadConfig env netNSPath s =
     (case execCommand env netNSPath None [cmdJSON, cmdList, cmdRuleset] s of
        (Inl err, s1) \<Rightarrow> (Inl err, s1)
      | (Inr out, s1) \<Rightarrow>
          (case New env netNSPath s1 of
             (Inl err, s2) \<Rightarrow> (Inl err, s2)
           | (Inr config, s2) \<Rightarrow>
               (let (doc, err) = FromJSON env (heap s2 ! config) out;
                    s3 = s2\<lparr>heap := (heap s2)[config := doc]\<rparr>
                in case err of
                     Some e \<Rightarrow> (Inl (listError e), s3)
                   | None \<Rightarrow> (Inr config, s3))))"

text \<open>
  \<^verbatim>\<open>ApplyConfig\<close>: the result is \<open>None\<close> when the pointer is \<^verbatim>\<open>nil\<close> (the call
  panics), otherwise the error returned (\<open>None\<close> for \<^verbatim>\<open>nil\<close>) and the state.
\<close>

definition deref :: "'n state \<Rightarrow> nat \<Rightarrow> 'n Config option" where
  "deref s c = (if c < length (heap s) then Some (heap s ! c) else None)"

definition ApplyConfig :: "'n env \<Rightarrow> nat \<Rightarrow> 'n state \<Rightarrow> (go_error option \<times> 'n state) option" where
  "ApplyConfig env c s =
     (case deref s c of
        None \<Rightarrow> None
      | Some doc \<Rightarrow>
          (let (data, err) = ToJSON env doc
           in case err of
                Some e \<Rightarrow> Some (Some e, s)
              | None \<Rightarrow>
                  (case execCommand env (NetNSPath doc) data [cmdJSON, cmdFile, cmdStdin] s of
                     (Inl e, s1) \<Rightarrow> Some (Some e, s1)
                   | (Inr out, s1) \<Rightarrow> Some (None, s1))))"

subsection \<open>A concrete run, for evaluation\<close>

text \<open>
  A host where \<^verbatim>\<open>nsenter\<close> and \<^verbatim>\<open>nft\<close> are installed. The ruleset tool lists
  namespace \<^verbatim>\<open>a\<close> as the one byte \<^verbatim>\<open>x\<close> and every other namespace as the empty
  object \<^verbatim>\<open>{}\<close>; it rejects the input \<^verbatim>\<open>1\<close> with a syntax error and accepts
  every other input. The codec (entities are numbers) encodes a sequence as its
  length in unary and refuses to encode a \<^verbatim>\<open>nil\<close> sequence; it decodes the empty
  object, which leaves the entity sequence as it was, and answers the empty input and
  any other input with the errors of \<^verbatim>\<open>encoding/json\<close> for them. Three
  documents exist, the second with a \<^verbatim>\<open>nil\<close> entity sequence. \<open>bare\<close> is the
  same host without the tools, \<open>unresolved\<close> the same state with no path for the
  namespace-entry tool.
\<close>

definition host_LookPath :: "string \<Rightarrow> string \<times> go_error option" where
  "host_LookPath name =
     (if name = ''nsenter'' then (''/usr/bin/nsenter'', None)
      else if name = ''nft'' then (''/usr/sbin/nft'', None)
      else ([], Some (errors_New ''executable file not found in $PATH'')))"

definition host_StartWait :: "Cmd \<Rightarrow> go_error option \<times> string \<times> string" where
  "host_StartWait cmd =
     (if drop 4 (Args cmd) = [''-j'', ''list'', ''ruleset''] then
        (if take 1 (drop 1 (Args cmd)) = [''--net=/run/netns/a''] then (None, ''x'', [])
         else (None, ''{}'', []))
      else if Stdin cmd = Some ''1'' then
        (Some (errors_New ''exit status 1''), [], ''Error: syntax error'')
      else (None, [], []))"

definition host_Marshal :: "nat list option \<Rightarrow> string option \<times> go_error option" where
  "host_Marshal nfts =
     (case nfts of
        None \<Rightarrow> (None, Some (errors_New ''unsupported value''))
      | Some xs \<Rightarrow> (Some (replicate (length xs) CHR ''1''), None))"

definition host_Unmarshal :: "string \<Rightarrow> nat list option \<Rightarrow> nat list option \<times> go_error option" where
  "host_Unmarshal data cur =
     (if data = ''{}'' then (cur, None)
      else if data = [] then (cur, Some (errors_New ''unexpected end of JSON input''))
      else (cur, Some (errors_New (''invalid character '' @ quote @ take 1 data @ quote
                                     @ '' looking for beginning of value''))))"

definition host :: "nat env" where
  "host = \<lparr>LookPath = host_LookPath, StartWait = host_StartWait,
            Marshal = host_Marshal, Unmarshal = host_Unmarshal\<rparr>"

definition bare_LookPath :: "string \<Rightarrow> string \<times> go_error option" where
  "bare_LookPath name = ([], Some (errors_New ''executable file not found in $PATH''))"

definition bare :: "nat env" where
  "bare = \<lparr>LookPath = bare_LookPath, StartWait = host_StartWait,
            Marshal = host_Marshal, Unmarshal = host_Unmarshal\<rparr>"

definition booted :: "nat state" where
  "booted = \<lparr>NSEnterBinPath = ''/usr/bin/nsenter'', NFTBinPath = ''/usr/sbin/nft'',
              heap = [\<lparr>Nftables = Some [7], NetNSPath = ''/run/netns/a''\<rparr>,
                      \<lparr>Nftables = None, NetNSPath = ''/run/netns/b''\<rparr>,
                      \<lparr>Nftables = Some [], NetNSPath = ''/run/netns/c''\<rparr>],
              trace = []\<rparr>"

definition unresolved :: "nat state" where
  "unresolved = \<lparr>NSEnterBinPath = [], NFTBinPath = ''/usr/sbin/nft'',
                  heap = [\<lparr>Nftables = Some [7], NetNSPath = ''/run/netns/z''\<rparr>],
                  trace = []\<rparr>"

section \<open>Properties\<close>

subsection \<open>Helper facts\<close>

lemma runs_append: "runs (xs @ ys) = runs xs @ runs ys"
  by (induction xs rule: runs.induct) simp_all

lemma lookups_append: "lookups (xs @ ys) = lookups xs @ lookups ys"
  by (induction xs rule: lookups.induct) simp_all

lemma Args_buildCmd:
  "Args (buildCmd env s netNSPath input args) = NSEnterBinPath s # fullArgs s netNSPath args"
  by (simp add: buildCmd_def exec_Command_def Let_def split: option.split prod.split)

lemma Stdin_buildCmd: "Stdin (buildCmd env s netNSPath input args) = input"
  by (simp add: buildCmd_def exec_Command_def Let_def split: option.split prod.split)

lemma runs_Command_events: "runs (Command_events name) = []"
  by (simp add: Command_events_def)

lemma lookups_Command_events:
  "lookups (Command_events name) = (if filepath_Base name = name then [name] else [])"
  by (simp add: Command_events_def)

lemma trace_execCommand:
  "trace (snd (execCommand env netNSPath input args s)) =
     trace s @ LogTrace (traceMsg s (fullArgs s netNSPath args))
       # Command_events (NSEnterBinPath s) @ [RunCmd (buildCmd env s netNSPath input args)]"
  by (simp add: execCommand_def emit_def Let_def split: prod.split option.split)

lemma strings_Join_Cons: "strings_Join (x # xs) sep = x @ concat (map ((@) sep) xs)"
  by (induction xs arbitrary: x) simp_all

lemma snd_execCommand:
  "snd (execCommand env N input A s) =
     s\<lparr>trace := trace s @ LogTrace (traceMsg s (fullArgs s N A))
         # Command_events (NSEnterBinPath s) @ [RunCmd (buildCmd env s N input A)]\<rparr>"
  by (simp add: execCommand_def emit_def Let_def split: prod.split option.split)

lemma fst_execCommand_ok:
  "Cmd_Run env (buildCmd env s N input A) = (None, out, errout) \<Longrightarrow>
     fst (execCommand env N input A s) = Inr out"
  by (simp add: execCommand_def Let_def)

lemma fst_execCommand_fail:
  "Cmd_Run env (buildCmd env s N input A) = (Some e, out, errout) \<Longrightarrow>
     fst (execCommand env N input A s) = Inl (execError (buildCmd env s N input A) e input out errout)"
  by (simp add: execCommand_def Let_def)

lemma empty_path_no_command:
  "NSEnterBinPath s = [] \<Longrightarrow>
     Cmd_Run env (buildCmd env s N input A) = (Some (errors_New ''exec: no command''), [], [])"
  by (cases input) (simp_all add: buildCmd_def exec_Command_def filepath_Base_def Cmd_Run_def)

lemma execCommand_ok_path:
  assumes "fst (execCommand env N input A s) = Inr out"
  shows "NSEnterBinPath s \<noteq> []"
proof
  assume "NSEnterBinPath s = []"
  then have "fst (execCommand env N input A s) =
      Inl (execError (buildCmd env s N input A) (errors_New ''exec: no command'') input [] [])"
    by (simp add: fst_execCommand_fail empty_path_no_command)
  with assms show False by simp
qed

lemma New_resolved:
  "NSEnterBinPath s \<noteq> [] \<Longrightarrow>
     New env N s = (Inr (length (heap s)), s\<lparr>heap := heap s @ [\<lparr>Nftables = Some [], NetNSPath = N\<rparr>]\<rparr>)"
  by (simp add: New_def New_finish_def Let_def)

lemma ReadConfig_exec_fail:
  "fst (execCommand env N None [cmdJSON, cmdList, cmdRuleset] s) = Inl e \<Longrightarrow>
     ReadConfig env N s = (Inl e, snd (execCommand env N None [cmdJSON, cmdList, cmdRuleset] s))"
  by (cases "execCommand env N None [cmdJSON, cmdList, cmdRuleset] s") (simp add: ReadConfig_def)

lemma ReadConfig_exec_ok:
  assumes "fst (execCommand env N None [cmdJSON, cmdList, cmdRuleset] s) = Inr out"
  shows "ReadConfig env N s =
     (case snd (FromJSON env \<lparr>Nftables = Some [], NetNSPath = N\<rparr> out) of
        Some e \<Rightarrow> Inl (listError e) | None \<Rightarrow> Inr (length (heap s)),
      (snd (execCommand env N None [cmdJSON, cmdList, cmdRuleset] s))
        \<lparr>heap := heap s @ [fst (FromJSON env \<lparr>Nftables = Some [], NetNSPath = N\<rparr> out)]\<rparr>)"
proof -
  obtain s1 where e: "execCommand env N None [cmdJSON, cmdList, cmdRuleset] s = (Inr out, s1)"
    using assms by (cases "execCommand env N None [cmdJSON, cmdList, cmdRuleset] s") simp
  have s1: "s1 = snd (execCommand env N None [cmdJSON, cmdList, cmdRuleset] s)"
    by (simp add: e)
  have p: "NSEnterBinPath s1 \<noteq> []"
    using execCommand_ok_path [OF assms] by (simp add: s1 snd_execCommand)
  have h: "heap s1 = heap s" by (simp add: s1 snd_execCommand)
  have "ReadConfig env N s =
     (case snd (FromJSON env \<lparr>Nftables = Some [], NetNSPath = N\<rparr> out) of
        Some e \<Rightarrow> Inl (listError e) | None \<Rightarrow> Inr (length (heap s)),
      s1\<lparr>heap := heap s @ [fst (FromJSON env \<lparr>Nftables = Some [], NetNSPath = N\<rparr> out)]\<rparr>)"
    by (simp add: ReadConfig_def e New_resolved [OF p] h Let_def split: prod.split option.split)
  then show ?thesis by (simp only: s1)
qed

lemma heap_ReadConfig:
  "take (length (heap s)) (heap (snd (ReadConfig env N s))) = heap s"
proof (cases "fst (execCommand env N None [cmdJSON, cmdList, cmdRuleset] s)")
  case (Inl e)
  then show ?thesis by (simp add: ReadConfig_exec_fail snd_execCommand)
next
  case (Inr out)
  then show ?thesis by (simp add: ReadConfig_exec_ok snd_execCommand)
qed

lemma trace_ReadConfig:
  "trace (snd (ReadConfig env N s)) = trace (snd (execCommand env N None [cmdJSON, cmdList, cmdRuleset] s))"
proof (cases "fst (execCommand env N None [cmdJSON, cmdList, cmdRuleset] s)")
  case (Inl e)
  then show ?thesis by (simp add: ReadConfig_exec_fail)
next
  case (Inr out)
  then show ?thesis by (simp add: ReadConfig_exec_ok)
qed

lemma ApplyConfig_encoded:
  assumes "deref s c = Some doc" and "ToJSON env doc = (data, None)"
  shows "ApplyConfig env c s =
     Some (case fst (execCommand env (NetNSPath doc) data [cmdJSON, cmdFile, cmdStdin] s) of
             Inl e \<Rightarrow> Some e | Inr out \<Rightarrow> None,
           snd (execCommand env (NetNSPath doc) data [cmdJSON, cmdFile, cmdStdin] s))"
  using assms
  by (cases "execCommand env (NetNSPath doc) data [cmdJSON, cmdFile, cmdStdin] s")
    (simp add: ApplyConfig_def split: sum.split)

lemma ApplyConfig_not_encoded:
  assumes "deref s c = Some doc" and "ToJSON env doc = (data, Some e)"
  shows "ApplyConfig env c s = Some (Some e, s)"
  using assms by (simp add: ApplyConfig_def)

lemma sublist_here: "sublist x (x @ r)"
  by (rule sublist_append_rightI)

lemma sublist_later: "sublist x r \<Longrightarrow> sublist x (p @ r)"
  by (auto simp: sublist_def) (metis append.assoc)

lemma Error_execError:
  "Error (execError cmd e input out errout) =
     ''failed to execute '' @ Path cmd @ '' '' @ strings_Join (Args cmd) '' '' @ '': '' @ Error e
       @ '' stdin:'' @ quote @ string_of_bytes input @ quote
       @ '' stdout:'' @ quote @ out @ quote
       @ '' stderr:'' @ quote @ errout @ quote"
  by (simp only: execError_def go_error.sel)

lemma Unwrap_execError: "Unwrap (execError cmd e input out errout) = Some e"
  by (simp only: execError_def go_error.sel)

lemma execError_embeds:
  "sublist (Path cmd) (Error (execError cmd e input out errout))"
  "sublist (strings_Join (Args cmd) '' '') (Error (execError cmd e input out errout))"
  "sublist (Error e) (Error (execError cmd e input out errout))"
  "sublist (string_of_bytes input) (Error (execError cmd e input out errout))"
  "sublist out (Error (execError cmd e input out errout))"
  "sublist errout (Error (execError cmd e input out errout))"
  unfolding Error_execError
  by (intro sublist_later sublist_here | rule sublist_here)+

lemma New_lookup_failed:
  "NSEnterBinPath s = [] \<Longrightarrow> LookPath env ''nsenter'' = (p, Some e) \<Longrightarrow>
     New env N s =
       (Inl e, s\<lparr>heap := heap s @ [\<lparr>Nftables = None, NetNSPath = N\<rparr>],
                 trace := trace s @ [LookPathCall ''nsenter'']\<rparr>)"
  by (simp add: New_def emit_def Let_def)

lemma New_lookup_found:
  "NSEnterBinPath s = [] \<Longrightarrow> LookPath env ''nsenter'' = (p, None) \<Longrightarrow>
     New env N s =
       (Inr (length (heap s)),
        s\<lparr>heap := heap s @ [\<lparr>Nftables = Some [], NetNSPath = N\<rparr>],
          trace := trace s @ [LookPathCall ''nsenter''], NSEnterBinPath := p\<rparr>)"
  by (simp add: New_def New_finish_def emit_def Let_def)

lemma New_cases:
  obtains (resolved) "NSEnterBinPath s \<noteq> []"
      "New env N s = (Inr (length (heap s)), s\<lparr>heap := heap s @ [\<lparr>Nftables = Some [], NetNSPath = N\<rparr>]\<rparr>)"
  | (failed) p e where "NSEnterBinPath s = []" "LookPath env ''nsenter'' = (p, Some e)"
      "New env N s =
         (Inl e, s\<lparr>heap := heap s @ [\<lparr>Nftables = None, NetNSPath = N\<rparr>],
                   trace := trace s @ [LookPathCall ''nsenter'']\<rparr>)"
  | (found) p where "NSEnterBinPath s = []" "LookPath env ''nsenter'' = (p, None)"
      "New env N s =
         (Inr (length (heap s)),
          s\<lparr>heap := heap s @ [\<lparr>Nftables = Some [], NetNSPath = N\<rparr>],
            trace := trace s @ [LookPathCall ''nsenter''], NSEnterBinPath := p\<rparr>)"
proof (cases "NSEnterBinPath s = []")
  case False
  then show ?thesis using resolved New_resolved by blast
next
  case True
  obtain p err where l: "LookPath env ''nsenter'' = (p, err)"
    by (cases "LookPath env ''nsenter''")
  show ?thesis
  proof (cases err)
    case None
    with True l show ?thesis using found New_lookup_found by blast
  next
    case (Some e)
    with True l show ?thesis using failed New_lookup_failed by blast
  qed
qed

lemma state_ReadConfig:
  "NFTBinPath (snd (ReadConfig env N s)) = NFTBinPath s"
  "NSEnterBinPath (snd (ReadConfig env N s)) = NSEnterBinPath s"
  "lookups (trace (snd (ReadConfig env N s))) =
     lookups (trace s) @ (if filepath_Base (NSEnterBinPath s) = NSEnterBinPath s
                          then [NSEnterBinPath s] else [])"
proof -
  have t: "lookups (trace (snd (execCommand env N None [cmdJSON, cmdList, cmdRuleset] s))) =
      lookups (trace s) @ (if filepath_Base (NSEnterBinPath s) = NSEnterBinPath s
                           then [NSEnterBinPath s] else [])"
    by (simp add: snd_execCommand lookups_append lookups_Command_events)
  show "lookups (trace (snd (ReadConfig env N s))) =
     lookups (trace s) @ (if filepath_Base (NSEnterBinPath s) = NSEnterBinPath s
                          then [NSEnterBinPath s] else [])"
    by (simp only: trace_ReadConfig t)
  show "NFTBinPath (snd (ReadConfig env N s)) = NFTBinPath s"
    by (cases "fst (execCommand env N None [cmdJSON, cmdList, cmdRuleset] s)")
      (simp_all add: ReadConfig_exec_fail ReadConfig_exec_ok snd_execCommand)
  show "NSEnterBinPath (snd (ReadConfig env N s)) = NSEnterBinPath s"
    by (cases "fst (execCommand env N None [cmdJSON, cmdList, cmdRuleset] s)")
      (simp_all add: ReadConfig_exec_fail ReadConfig_exec_ok snd_execCommand)
qed

lemma ApplyConfig_cases:
  assumes "ApplyConfig env c s = Some (r, s')"
  obtains (not_encoded) doc data e where "deref s c = Some doc" "ToJSON env doc = (data, Some e)"
      "r = Some e" "s' = s"
  | (encoded) doc data where "deref s c = Some doc" "ToJSON env doc = (data, None)"
      "r = (case fst (execCommand env (NetNSPath doc) data [cmdJSON, cmdFile, cmdStdin] s) of
              Inl e \<Rightarrow> Some e | Inr out \<Rightarrow> None)"
      "s' = snd (execCommand env (NetNSPath doc) data [cmdJSON, cmdFile, cmdStdin] s)"
proof -
  from assms obtain doc where d: "deref s c = Some doc"
    by (cases "deref s c") (simp_all add: ApplyConfig_def)
  obtain data err where j: "ToJSON env doc = (data, err)"
    by (cases "ToJSON env doc")
  show ?thesis
  proof (cases err)
    case None
    with j have j': "ToJSON env doc = (data, None)" by simp
    from assms have "(r, s') =
        (case fst (execCommand env (NetNSPath doc) data [cmdJSON, cmdFile, cmdStdin] s) of
              Inl e \<Rightarrow> Some e | Inr out \<Rightarrow> None,
         snd (execCommand env (NetNSPath doc) data [cmdJSON, cmdFile, cmdStdin] s))"
      by (simp only: ApplyConfig_encoded [OF d j'] option.inject)
    then have "r = (case fst (execCommand env (NetNSPath doc) data [cmdJSON, cmdFile, cmdStdin] s) of
              Inl e \<Rightarrow> Some e | Inr out \<Rightarrow> None)"
      and "s' = snd (execCommand env (NetNSPath doc) data [cmdJSON, cmdFile, cmdStdin] s)"
      by (simp_all only: prod.inject)
    with d j' show ?thesis by (rule encoded)
  next
    case (Some e)
    with j have j': "ToJSON env doc = (data, Some e)" by simp
    from assms have "(r, s') = (Some e, s)"
      by (simp only: ApplyConfig_not_encoded [OF d j'] option.inject)
    then have "r = Some e" and "s' = s" by (simp_all only: prod.inject)
    with d j' show ?thesis by (rule not_encoded)
  qed
qed

lemma state_ApplyConfig:
  assumes "ApplyConfig env c s = Some (r, s')"
  shows "heap s' = heap s" and "NFTBinPath s' = NFTBinPath s"
    and "NSEnterBinPath s' = NSEnterBinPath s"
  using assms
  by (rule ApplyConfig_cases; simp add: snd_execCommand)+

lemma lookups_ApplyConfig:
  assumes "ApplyConfig env c s = Some (r, s')" and "deref s c = Some doc"
  shows "lookups (trace s') =
     lookups (trace s) @ (if snd (ToJSON env doc) = None
                            \<and> filepath_Base (NSEnterBinPath s) = NSEnterBinPath s
                          then [NSEnterBinPath s] else [])"
  using assms(1)
proof (cases rule: ApplyConfig_cases)
  case (not_encoded doc' data e)
  with assms(2) show ?thesis by simp
next
  case (encoded doc' data)
  with assms(2) show ?thesis
    by (simp add: snd_execCommand lookups_append lookups_Command_events)
qed

lemma host_list_a:
  "fst (execCommand host ''/run/netns/a'' None [''-j'', ''list'', ''ruleset''] booted) = Inr ''x''"
proof -
  have "Cmd_Run host (buildCmd host booted ''/run/netns/a'' None [''-j'', ''list'', ''ruleset''])
     = (None, ''x'', [])"
    by (simp add: Cmd_Run_def buildCmd_def exec_Command_def filepath_Base_def fullArgs_def
        booted_def host_def host_StartWait_def)
  then show ?thesis by (rule fst_execCommand_ok)
qed

lemma host_decode_x:
  "snd (FromJSON host \<lparr>Nftables = Some [], NetNSPath = ''/run/netns/a''\<rparr> ''x'')
     = Some (errors_New ''invalid character 'x' looking for beginning of value'')"
  by (simp add: FromJSON_def host_def host_Unmarshal_def quote_def)

lemma ReadConfig_decode_failed:
  assumes "fst (execCommand env N None [''-j'', ''list'', ''ruleset''] s) = Inr out"
    and "snd (FromJSON env \<lparr>Nftables = Some [], NetNSPath = N\<rparr> out) = Some e"
  shows "fst (ReadConfig env N s) = Inl (listError e)"
proof -
  have "fst (execCommand env N None [cmdJSON, cmdList, cmdRuleset] s) = Inr out"
    using assms(1) by (simp add: cmdJSON_def cmdList_def cmdRuleset_def)
  then show ?thesis
    using assms(2) by (simp add: ReadConfig_exec_ok)
qed

lemma heap_ReadConfig_failed_exec:
  "fst (execCommand env N None [cmdJSON, cmdList, cmdRuleset] s) = Inl e \<Longrightarrow>
     heap (snd (ReadConfig env N s)) = heap s"
  by (simp add: ReadConfig_exec_fail snd_execCommand)

lemma fst_ReadConfig_Inr:
  assumes "fst (ReadConfig env N s) = Inr p"
  shows "p = length (heap s)"
proof (cases "fst (execCommand env N None [cmdJSON, cmdList, cmdRuleset] s)")
  case (Inl e)
  with assms show ?thesis by (simp add: ReadConfig_exec_fail)
next
  case (Inr out)
  with assms show ?thesis by (simp add: ReadConfig_exec_ok split: option.splits)
qed

lemma host_apply_rejected:
  "\<exists>e s'. ApplyConfig host 0 booted = Some (Some e, s')"
proof -
  have d: "deref booted 0 = Some \<lparr>Nftables = Some [7], NetNSPath = ''/run/netns/a''\<rparr>"
    by (simp add: deref_def booted_def)
  have j: "ToJSON host \<lparr>Nftables = Some [7::nat], NetNSPath = ''/run/netns/a''\<rparr> = (Some ''1'', None)"
    by (simp add: ToJSON_def host_def host_Marshal_def)
  have "Cmd_Run host (buildCmd host booted ''/run/netns/a'' (Some ''1'') [cmdJSON, cmdFile, cmdStdin])
       = (Some (errors_New ''exit status 1''), [], ''Error: syntax error'')"
    by (simp add: Cmd_Run_def buildCmd_def exec_Command_def filepath_Base_def fullArgs_def
        booted_def host_def host_StartWait_def cmdJSON_def cmdFile_def cmdStdin_def)
  then have "\<exists>e. fst (execCommand host ''/run/netns/a'' (Some ''1'') [cmdJSON, cmdFile, cmdStdin] booted) = Inl e"
    by (simp only: fst_execCommand_fail) blast
  then show ?thesis
    using ApplyConfig_encoded [OF d j] by auto
qed

lemma host_apply_accepted:
  "\<exists>s'. ApplyConfig host 2 booted = Some (None, s')"
proof -
  have d: "deref booted 2 = Some \<lparr>Nftables = Some [], NetNSPath = ''/run/netns/c''\<rparr>"
    by (simp add: deref_def booted_def)
  have j: "ToJSON host \<lparr>Nftables = Some ([]::nat list), NetNSPath = ''/run/netns/c''\<rparr> = (Some [], None)"
    by (simp add: ToJSON_def host_def host_Marshal_def)
  have "Cmd_Run host (buildCmd host booted ''/run/netns/c'' (Some []) [cmdJSON, cmdFile, cmdStdin])
       = (None, [], [])"
    by (simp add: Cmd_Run_def buildCmd_def exec_Command_def filepath_Base_def fullArgs_def
        booted_def host_def host_StartWait_def cmdJSON_def cmdFile_def cmdStdin_def)
  then have "fst (execCommand host ''/run/netns/c'' (Some []) [cmdJSON, cmdFile, cmdStdin] booted) = Inr []"
    by (rule fst_execCommand_ok)
  then show ?thesis
    using ApplyConfig_encoded [OF d j] by auto
qed

lemma host_list_b:
  "fst (execCommand host ''/run/netns/b'' None [''-j'', ''list'', ''ruleset''] booted) = Inr ''{}''"
proof -
  have "Cmd_Run host (buildCmd host booted ''/run/netns/b'' None [''-j'', ''list'', ''ruleset''])
     = (None, ''{}'', [])"
    by (simp add: Cmd_Run_def buildCmd_def exec_Command_def filepath_Base_def fullArgs_def
        booted_def host_def host_StartWait_def)
  then show ?thesis by (rule fst_execCommand_ok)
qed

lemma host_read_b: "fst (ReadConfig host ''/run/netns/b'' booted) = Inr 3"
proof -
  have "fst (execCommand host ''/run/netns/b'' None [cmdJSON, cmdList, cmdRuleset] booted) = Inr ''{}''"
    using host_list_b by (simp add: cmdJSON_def cmdList_def cmdRuleset_def)
  then show ?thesis
    by (simp add: ReadConfig_exec_ok FromJSON_def host_def host_Unmarshal_def) (simp add: booted_def)
qed

lemma host_read_a:
  "fst (ReadConfig host ''/run/netns/a'' booted)
     = Inl (GoError ''failed to list ruleset: invalid character 'x' looking for beginning of value'' None)"
  using ReadConfig_decode_failed [OF host_list_a host_decode_x]
  by (simp add: listError_def errors_New_def)

lemma ReadConfig_decode_error_message:
  assumes "fst (execCommand env N None [''-j'', ''list'', ''ruleset''] s) = Inr out"
    and "snd (FromJSON env \<lparr>Nftables = Some [], NetNSPath = N\<rparr> out) = Some e"
  shows "fst (ReadConfig env N s) = Inl (GoError (''failed to list ruleset: '' @ Error e) None)"
  using ReadConfig_decode_failed [OF assms] by (simp only: listError_def)

lemma join_Args_buildCmd:
  "strings_Join (Args (buildCmd env s N input A)) '' '' =
     NSEnterBinPath s @ '' --net='' @ N @ '' -- '' @ NFTBinPath s @ concat (map ((@) '' '') A)"
  by (simp add: Args_buildCmd fullArgs_def strings_Join_Cons)

lemma new_stdin_ApplyConfig:
  assumes "ApplyConfig env c s = Some (r, s')" and "deref s c = Some doc"
  shows "map Stdin (runs (drop (length (trace s)) (trace s'))) =
           (case snd (ToJSON env doc) of Some e \<Rightarrow> [] | None \<Rightarrow> [fst (ToJSON env doc)])"
  using assms(1)
proof (cases rule: ApplyConfig_cases)
  case (not_encoded doc' data e)
  with assms(2) show ?thesis by simp
next
  case (encoded doc' data)
  with assms(2) show ?thesis
    by (simp add: snd_execCommand runs_append runs_Command_events Stdin_buildCmd)
qed

lemma buildCmd_unresolved:
  "NSEnterBinPath s = [] \<Longrightarrow>
     buildCmd env s N None A =
       \<lparr>Path = [], Args = [] # (''--net='' @ N) # ''--'' # NFTBinPath s # A, Err = None, Stdin = None\<rparr>"
  by (simp add: buildCmd_def exec_Command_def filepath_Base_def fullArgs_def)

subsection \<open>The executor\<close>

text \<open>
  Claim C1. Every call of \<^verbatim>\<open>execCommand\<close> with namespace reference \<open>N\<close> and tool
  arguments \<open>A\<close> runs exactly one command: \<^verbatim>\<open>exec.Command\<close> of the namespace-entry
  tool path \<^verbatim>\<open>NSEnterBinPath\<close> with the arguments \<^verbatim>\<open>--net=N\<close>, \<^verbatim>\<open>--\<close>, the
  ruleset-tool path \<^verbatim>\<open>NFTBinPath\<close> and then \<open>A\<close>. In its argument vector (the
  command name at index 0) the namespace option is at index 1, the separator at
  index 2, immediately before the ruleset-tool path at index 3, and \<open>A\<close> follows.
\<close>

theorem execCommand_argument_order:
  "runs (trace (snd (execCommand env N input A s))) = runs (trace s) @ [buildCmd env s N input A]
   \<and> buildCmd env s N input A =
       (exec_Command env (NSEnterBinPath s) ([''--net='' @ N, ''--'', NFTBinPath s] @ A))\<lparr>Stdin := input\<rparr>
   \<and> Args (buildCmd env s N input A) = [NSEnterBinPath s, ''--net='' @ N, ''--'', NFTBinPath s] @ A
   \<and> Args (buildCmd env s N input A) ! 1 = ''--net='' @ N
   \<and> Args (buildCmd env s N input A) ! 2 = ''--''
   \<and> Args (buildCmd env s N input A) ! 3 = NFTBinPath s
   \<and> drop 4 (Args (buildCmd env s N input A)) = A"
proof -
  have a: "Args (buildCmd env s N input A) = [NSEnterBinPath s, ''--net='' @ N, ''--'', NFTBinPath s] @ A"
    by (simp add: Args_buildCmd fullArgs_def)
  have b: "buildCmd env s N input A =
       (exec_Command env (NSEnterBinPath s) ([''--net='' @ N, ''--'', NFTBinPath s] @ A))\<lparr>Stdin := input\<rparr>"
    by (cases input)
      (simp_all add: buildCmd_def fullArgs_def exec_Command_def Let_def split: prod.split option.split)
  have r: "runs (trace (snd (execCommand env N input A s))) = runs (trace s) @ [buildCmd env s N input A]"
    by (simp add: snd_execCommand runs_append runs_Command_events)
  from a b r show ?thesis by (simp add: nth_Cons')
qed

subsection \<open>Read and Apply\<close>

text \<open>
  Claim C2. \<^verbatim>\<open>ReadConfig\<close> runs what the executor runs for the arguments
  \<^verbatim>\<open>-j list ruleset\<close> and a \<^verbatim>\<open>nil\<close> input: one command, whose arguments after
  the ruleset-tool path are exactly these three and to which no standard input is
  attached. \<^verbatim>\<open>ApplyConfig\<close> on a document whose encoding gives \<open>data\<close> returns
  what the executor returns for the document's namespace, the arguments
  \<^verbatim>\<open>-j -f -\<close> and \<open>data\<close> as input: one command, whose arguments after the
  ruleset-tool path are exactly these three and whose standard input is \<open>data\<close>.
\<close>

theorem ReadConfig_ApplyConfig_invocation:
  "runs (trace (snd (ReadConfig env N s))) =
     runs (trace (snd (execCommand env N None [''-j'', ''list'', ''ruleset''] s)))
   \<and> runs (trace (snd (ReadConfig env N s))) =
       runs (trace s) @ [buildCmd env s N None [''-j'', ''list'', ''ruleset'']]
   \<and> drop 4 (Args (buildCmd env s N None [''-j'', ''list'', ''ruleset''])) = [''-j'', ''list'', ''ruleset'']
   \<and> Stdin (buildCmd env s N None [''-j'', ''list'', ''ruleset'']) = None
   \<and> (deref s c = Some doc \<longrightarrow> ToJSON env doc = (data, None) \<longrightarrow>
        (\<exists>r s'. ApplyConfig env c s = Some (r, s')
           \<and> (r, s') = (case execCommand env (NetNSPath doc) data [''-j'', ''-f'', ''-''] s of
                          (Inl e, s1) \<Rightarrow> (Some e, s1) | (Inr out, s1) \<Rightarrow> (None, s1))
           \<and> runs (trace s') = runs (trace s) @ [buildCmd env s (NetNSPath doc) data [''-j'', ''-f'', ''-'']])
        \<and> drop 4 (Args (buildCmd env s (NetNSPath doc) data [''-j'', ''-f'', ''-''])) = [''-j'', ''-f'', ''-'']
        \<and> Stdin (buildCmd env s (NetNSPath doc) data [''-j'', ''-f'', ''-'']) = data)"
proof -
  have k: "[cmdJSON, cmdList, cmdRuleset] = [''-j'', ''list'', ''ruleset'']"
    "[cmdJSON, cmdFile, cmdStdin] = [''-j'', ''-f'', ''-'']"
    by (simp_all add: cmdJSON_def cmdList_def cmdRuleset_def cmdFile_def cmdStdin_def)
  have r1: "runs (trace (snd (ReadConfig env N s))) =
     runs (trace (snd (execCommand env N None [''-j'', ''list'', ''ruleset''] s)))"
    using trace_ReadConfig [of env N s] by (simp add: k)
  have r2: "runs (trace (snd (execCommand env N None [''-j'', ''list'', ''ruleset''] s))) =
       runs (trace s) @ [buildCmd env s N None [''-j'', ''list'', ''ruleset'']]"
    by (simp add: snd_execCommand runs_append runs_Command_events)
  have a: "\<And>M i B. drop 4 (Args (buildCmd env s M i B)) = B"
    by (simp add: Args_buildCmd fullArgs_def)
  have ap: "\<exists>r s'. ApplyConfig env c s = Some (r, s')
           \<and> (r, s') = (case execCommand env (NetNSPath doc) data [''-j'', ''-f'', ''-''] s of
                          (Inl e, s1) \<Rightarrow> (Some e, s1) | (Inr out, s1) \<Rightarrow> (None, s1))
           \<and> runs (trace s') = runs (trace s) @ [buildCmd env s (NetNSPath doc) data [''-j'', ''-f'', ''-'']]"
    if "deref s c = Some doc" "ToJSON env doc = (data, None)"
  proof -
    obtain r0 s1 where e: "execCommand env (NetNSPath doc) data [''-j'', ''-f'', ''-''] s = (r0, s1)"
      by (cases "execCommand env (NetNSPath doc) data [''-j'', ''-f'', ''-''] s")
    have s1: "s1 = snd (execCommand env (NetNSPath doc) data [''-j'', ''-f'', ''-''] s)"
      by (simp add: e)
    have t: "runs (trace s1) = runs (trace s) @ [buildCmd env s (NetNSPath doc) data [''-j'', ''-f'', ''-'']]"
      by (simp add: s1 snd_execCommand runs_append runs_Command_events)
    show ?thesis
      using ApplyConfig_encoded [OF that] t by (cases r0) (simp_all add: k e)
  qed
  from r1 r2 a ap show ?thesis by (simp add: Stdin_buildCmd)
qed

theorem ReadConfig_ApplyConfig_invocation_witness:
  "deref booted 0 = Some \<lparr>Nftables = Some [7], NetNSPath = ''/run/netns/a''\<rparr>
   \<and> ToJSON host \<lparr>Nftables = Some [7::nat], NetNSPath = ''/run/netns/a''\<rparr> = (Some ''1'', None)
   \<and> (\<exists>r s'. ApplyConfig host 0 booted = Some (r, s')
         \<and> runs (trace s') =
             [\<lparr>Path = ''/usr/bin/nsenter'',
               Args = [''/usr/bin/nsenter'', ''--net=/run/netns/a'', ''--'', ''/usr/sbin/nft'',
                       ''-j'', ''-f'', ''-''],
               Err = None, Stdin = Some ''1''\<rparr>])"
proof -
  let ?doc = "\<lparr>Nftables = Some [7::nat], NetNSPath = ''/run/netns/a''\<rparr>"
  have d: "deref booted 0 = Some ?doc"
    by (simp add: deref_def booted_def)
  have j: "ToJSON host ?doc = (Some ''1'', None)"
    by (simp add: ToJSON_def host_def host_Marshal_def)
  have b: "buildCmd host booted ''/run/netns/a'' (Some ''1'') [''-j'', ''-f'', ''-''] =
     \<lparr>Path = ''/usr/bin/nsenter'',
      Args = [''/usr/bin/nsenter'', ''--net=/run/netns/a'', ''--'', ''/usr/sbin/nft'',
              ''-j'', ''-f'', ''-''],
      Err = None, Stdin = Some ''1''\<rparr>"
    by (simp add: buildCmd_def exec_Command_def filepath_Base_def fullArgs_def booted_def)
  have "\<exists>r s'. ApplyConfig host 0 booted = Some (r, s')
         \<and> runs (trace s') = runs (trace booted) @
              [buildCmd host booted (NetNSPath ?doc) (Some ''1'') [''-j'', ''-f'', ''-'']]"
    using ReadConfig_ApplyConfig_invocation [of host "''/run/netns/a''" booted 0 ?doc "Some ''1''"] d j
    by blast
  then have "\<exists>r s'. ApplyConfig host 0 booted = Some (r, s')
         \<and> runs (trace s') =
             [\<lparr>Path = ''/usr/bin/nsenter'',
               Args = [''/usr/bin/nsenter'', ''--net=/run/netns/a'', ''--'', ''/usr/sbin/nft'',
                       ''-j'', ''-f'', ''-''],
               Err = None, Stdin = Some ''1''\<rparr>]"
    by (simp add: b) (simp add: booted_def)
  with d j show ?thesis by blast
qed

subsection \<open>The result of the executor\<close>

text \<open>
  Claim C3. When \<^verbatim>\<open>Run\<close> reports no error (the process exited with status zero),
  \<^verbatim>\<open>execCommand\<close> returns exactly the bytes captured from standard output. When
  \<^verbatim>\<open>Run\<close> reports an error (a non-zero exit, or a command that could not be
  started), it returns an error that wraps the error of \<^verbatim>\<open>Run\<close> and whose message
  is built from the path of the command, its argument vector joined by spaces, the
  message of the error of \<^verbatim>\<open>Run\<close>, the input sent (empty when there was none) and
  the captured standard output and standard error; each of them occurs verbatim in
  the message. In particular the bytes \<open>b\<close> of an input \<open>Some b\<close> occur in it, and
  so does the whole argument vector in order: the namespace-entry tool path, the
  namespace option, the separator, the ruleset-tool path and every tool argument, one
  space before each but the first.
\<close>

theorem execCommand_result:
  "(Cmd_Run env (buildCmd env s N input A) = (None, out, errout) \<longrightarrow>
      fst (execCommand env N input A s) = Inr out)
   \<and> (Cmd_Run env (buildCmd env s N input A) = (Some e, out, errout) \<longrightarrow>
        (\<exists>x. fst (execCommand env N input A s) = Inl x
          \<and> Unwrap x = Some e
          \<and> Error x =
              ''failed to execute '' @ Path (buildCmd env s N input A) @ '' ''
                @ strings_Join (Args (buildCmd env s N input A)) '' '' @ '': '' @ Error e
                @ '' stdin:'' @ quote @ string_of_bytes input @ quote
                @ '' stdout:'' @ quote @ out @ quote
                @ '' stderr:'' @ quote @ errout @ quote
          \<and> sublist (Path (buildCmd env s N input A)) (Error x)
          \<and> sublist (strings_Join (Args (buildCmd env s N input A)) '' '') (Error x)
          \<and> sublist (Error e) (Error x)
          \<and> sublist (string_of_bytes input) (Error x)
          \<and> sublist out (Error x)
          \<and> sublist errout (Error x)
          \<and> (input = Some b \<longrightarrow> sublist b (Error x))
          \<and> sublist (NSEnterBinPath s @ '' --net='' @ N @ '' -- '' @ NFTBinPath s
                       @ concat (map ((@) '' '') A)) (Error x)))"
proof (intro conjI impI)
  assume "Cmd_Run env (buildCmd env s N input A) = (None, out, errout)"
  then show "fst (execCommand env N input A s) = Inr out"
    by (rule fst_execCommand_ok)
next
  let ?x = "execError (buildCmd env s N input A) e input out errout"
  assume "Cmd_Run env (buildCmd env s N input A) = (Some e, out, errout)"
  then have f: "fst (execCommand env N input A s) = Inl ?x"
    by (rule fst_execCommand_fail)
  show "\<exists>x. fst (execCommand env N input A s) = Inl x
          \<and> Unwrap x = Some e
          \<and> Error x =
              ''failed to execute '' @ Path (buildCmd env s N input A) @ '' ''
                @ strings_Join (Args (buildCmd env s N input A)) '' '' @ '': '' @ Error e
                @ '' stdin:'' @ quote @ string_of_bytes input @ quote
                @ '' stdout:'' @ quote @ out @ quote
                @ '' stderr:'' @ quote @ errout @ quote
          \<and> sublist (Path (buildCmd env s N input A)) (Error x)
          \<and> sublist (strings_Join (Args (buildCmd env s N input A)) '' '') (Error x)
          \<and> sublist (Error e) (Error x)
          \<and> sublist (string_of_bytes input) (Error x)
          \<and> sublist out (Error x)
          \<and> sublist errout (Error x)
          \<and> (input = Some b \<longrightarrow> sublist b (Error x))
          \<and> sublist (NSEnterBinPath s @ '' --net='' @ N @ '' -- '' @ NFTBinPath s
                       @ concat (map ((@) '' '') A)) (Error x)"
  proof (rule exI [of _ ?x], intro conjI)
    show "fst (execCommand env N input A s) = Inl ?x" by (rule f)
    show "Unwrap ?x = Some e" by (rule Unwrap_execError)
    show "Error ?x =
              ''failed to execute '' @ Path (buildCmd env s N input A) @ '' ''
                @ strings_Join (Args (buildCmd env s N input A)) '' '' @ '': '' @ Error e
                @ '' stdin:'' @ quote @ string_of_bytes input @ quote
                @ '' stdout:'' @ quote @ out @ quote
                @ '' stderr:'' @ quote @ errout @ quote"
      by (rule Error_execError)
    show "input = Some b \<longrightarrow> sublist b (Error ?x)"
    proof
      assume "input = Some b"
      then have "string_of_bytes input = b"
        by (simp add: string_of_bytes_def)
      with execError_embeds(4) [of input "buildCmd env s N input A" e out errout]
      show "sublist b (Error ?x)" by (simp only:)
    qed
    show "sublist (NSEnterBinPath s @ '' --net='' @ N @ '' -- '' @ NFTBinPath s
                       @ concat (map ((@) '' '') A)) (Error ?x)"
      using execError_embeds(2) [of "buildCmd env s N input A" e input out errout]
      by (simp only: join_Args_buildCmd)
  qed (rule execError_embeds)+
qed

theorem execCommand_result_witness:
  "Cmd_Run host (buildCmd host booted ''/run/netns/a'' None [''-j'', ''list'', ''ruleset''])
     = (None, ''x'', [])
   \<and> fst (execCommand host ''/run/netns/a'' None [''-j'', ''list'', ''ruleset''] booted) = Inr ''x''
   \<and> Cmd_Run host (buildCmd host booted ''/run/netns/a'' (Some ''1'') [''-j'', ''-f'', ''-''])
       = (Some (errors_New ''exit status 1''), [], ''Error: syntax error'')
   \<and> (\<exists>x. fst (execCommand host ''/run/netns/a'' (Some ''1'') [''-j'', ''-f'', ''-''] booted) = Inl x
         \<and> Unwrap x = Some (errors_New ''exit status 1'')
         \<and> sublist ''Error: syntax error'' (Error x)
         \<and> sublist ''1'' (Error x)
         \<and> sublist ''/usr/bin/nsenter --net=/run/netns/a -- /usr/sbin/nft -j -f -'' (Error x)
         \<and> Error x =
             ''failed to execute /usr/bin/nsenter /usr/bin/nsenter --net=/run/netns/a -- /usr/sbin/nft -j -f -: exit status 1 stdin:'1' stdout:''
               @ [CHR 0x27, CHR 0x27] @ '' stderr:'Error: syntax error'' @ [CHR 0x27])"
proof -
  have ok: "Cmd_Run host (buildCmd host booted ''/run/netns/a'' None [''-j'', ''list'', ''ruleset''])
     = (None, ''x'', [])"
    by (simp add: Cmd_Run_def buildCmd_def exec_Command_def filepath_Base_def fullArgs_def
        booted_def host_def host_StartWait_def)
  have bad: "Cmd_Run host (buildCmd host booted ''/run/netns/a'' (Some ''1'') [''-j'', ''-f'', ''-''])
       = (Some (errors_New ''exit status 1''), [], ''Error: syntax error'')"
    by (simp add: Cmd_Run_def buildCmd_def exec_Command_def filepath_Base_def fullArgs_def
        booted_def host_def host_StartWait_def)
  have r1: "fst (execCommand host ''/run/netns/a'' None [''-j'', ''list'', ''ruleset''] booted) = Inr ''x''"
    using execCommand_result [where env = host and s = booted and N = "''/run/netns/a''"
        and input = None and A = "[''-j'', ''list'', ''ruleset'']" and out = "''x''" and errout = "[]"]
      ok by blast
  let ?cmd = "buildCmd host booted ''/run/netns/a'' (Some ''1'') [''-j'', ''-f'', ''-'']"
  obtain x where x: "fst (execCommand host ''/run/netns/a'' (Some ''1'') [''-j'', ''-f'', ''-''] booted) = Inl x"
    "Unwrap x = Some (errors_New ''exit status 1'')"
    "Error x =
       ''failed to execute '' @ Path ?cmd @ '' '' @ strings_Join (Args ?cmd) '' '' @ '': ''
         @ Error (errors_New ''exit status 1'')
         @ '' stdin:'' @ quote @ string_of_bytes (Some ''1'') @ quote
         @ '' stdout:'' @ quote @ [] @ quote
         @ '' stderr:'' @ quote @ ''Error: syntax error'' @ quote"
    "sublist ''Error: syntax error'' (Error x)"
    "Some ''1'' = Some ''1'' \<longrightarrow> sublist ''1'' (Error x)"
    "sublist (NSEnterBinPath booted @ '' --net='' @ ''/run/netns/a'' @ '' -- '' @ NFTBinPath booted
               @ concat (map ((@) '' '') [''-j'', ''-f'', ''-''])) (Error x)"
    using execCommand_result [where env = host and s = booted and N = "''/run/netns/a''"
        and input = "Some ''1''" and A = "[''-j'', ''-f'', ''-'']" and out = "[]"
        and errout = "''Error: syntax error''" and e = "errors_New ''exit status 1''"
        and b = "''1''"]
      bad by blast
  have c: "?cmd = \<lparr>Path = ''/usr/bin/nsenter'',
      Args = [''/usr/bin/nsenter'', ''--net=/run/netns/a'', ''--'', ''/usr/sbin/nft'',
              ''-j'', ''-f'', ''-''],
      Err = None, Stdin = Some ''1''\<rparr>"
    by (simp add: buildCmd_def exec_Command_def filepath_Base_def fullArgs_def booted_def)
  have m: "Error x =
      ''failed to execute /usr/bin/nsenter /usr/bin/nsenter --net=/run/netns/a -- /usr/sbin/nft -j -f -: exit status 1 stdin:'1' stdout:''
        @ [CHR 0x27, CHR 0x27] @ '' stderr:'Error: syntax error'' @ [CHR 0x27]"
    unfolding x(3) c by (simp add: errors_New_def quote_def string_of_bytes_def)
  have p: "NSEnterBinPath booted @ '' --net='' @ ''/run/netns/a'' @ '' -- '' @ NFTBinPath booted
               @ concat (map ((@) '' '') [''-j'', ''-f'', ''-''])
           = ''/usr/bin/nsenter --net=/run/netns/a -- /usr/sbin/nft -j -f -''"
    by (simp add: booted_def)
  have a: "sublist ''/usr/bin/nsenter --net=/run/netns/a -- /usr/sbin/nft -j -f -'' (Error x)"
    using x(6) by (simp only: p)
  have i: "sublist ''1'' (Error x)"
    using x(5) by blast
  from ok bad r1 x(1,2,4) i a m show ?thesis by blast
qed

subsection \<open>Construction\<close>

text \<open>
  Claim C4. Whenever \<^verbatim>\<open>New\<close> returns a document and not an error, the document is
  a new one, it is bound to the namespace reference given, and its entity sequence is
  the empty slice, not \<^verbatim>\<open>nil\<close>.
\<close>

theorem New_document:
  "fst (New env N s) = Inr c \<Longrightarrow>
     c = length (heap s)
     \<and> deref (snd (New env N s)) c = Some \<lparr>Nftables = Some [], NetNSPath = N\<rparr>
     \<and> NetNSPath (heap (snd (New env N s)) ! c) = N
     \<and> Nftables (heap (snd (New env N s)) ! c) = Some []
     \<and> Nftables (heap (snd (New env N s)) ! c) \<noteq> None"
  by (rule New_cases [where s = s and env = env and N = N]) (auto simp add: deref_def)

theorem New_document_witness:
  "fst (New host ''/run/netns/d'' booted) = Inr 3
   \<and> deref (snd (New host ''/run/netns/d'' booted)) 3
       = Some \<lparr>Nftables = Some [], NetNSPath = ''/run/netns/d''\<rparr>"
proof -
  have f: "fst (New host ''/run/netns/d'' booted) = Inr 3"
    by (simp add: New_def New_finish_def booted_def)
  from New_document [OF f] f show ?thesis by blast
qed

subsection \<open>Resolving the tools\<close>

text \<open>
  Claim C5. At startup \<^verbatim>\<open>init\<close> looks both tools up once and keeps whatever path
  each lookup gave, an empty one when the tool was not found. \<^verbatim>\<open>New\<close> calls
  \<^verbatim>\<open>exec.LookPath\<close> for the namespace-entry tool exactly when \<^verbatim>\<open>NSEnterBinPath\<close>
  is empty, and runs no command. When that lookup fails, \<^verbatim>\<open>New\<close> returns the error
  of the lookup and \<^verbatim>\<open>NSEnterBinPath\<close> stays empty; when it succeeds,
  \<^verbatim>\<open>NSEnterBinPath\<close> becomes the path found and a document is returned; when no
  lookup was needed the path is kept. No operation of the package assigns
  \<^verbatim>\<open>NFTBinPath\<close>: \<^verbatim>\<open>New\<close>, \<^verbatim>\<open>execCommand\<close>, \<^verbatim>\<open>ReadConfig\<close> and
  \<^verbatim>\<open>ApplyConfig\<close> leave it as it was. The only lookup the last three make is the
  one inside \<^verbatim>\<open>exec.Command\<close>, of the value of \<^verbatim>\<open>NSEnterBinPath\<close> when that is a
  bare name, and its result goes to the command, not to a package variable.
\<close>

theorem New_lazy_lookup:
  "lookups (trace (init env s)) = lookups (trace s) @ [''nsenter'', ''nft'']
   \<and> NSEnterBinPath (init env s) = fst (LookPath env ''nsenter'')
   \<and> NFTBinPath (init env s) = fst (LookPath env ''nft'')
   \<and> lookups (trace (snd (New env N s))) =
     lookups (trace s) @ (if NSEnterBinPath s = [] then [''nsenter''] else [])
   \<and> runs (trace (snd (New env N s))) = runs (trace s)
   \<and> (NSEnterBinPath s = [] \<longrightarrow> LookPath env ''nsenter'' = (p, Some e) \<longrightarrow>
        fst (New env N s) = Inl e \<and> NSEnterBinPath (snd (New env N s)) = [])
   \<and> (NSEnterBinPath s = [] \<longrightarrow> LookPath env ''nsenter'' = (p, None) \<longrightarrow>
        fst (New env N s) = Inr (length (heap s)) \<and> NSEnterBinPath (snd (New env N s)) = p)
   \<and> (NSEnterBinPath s \<noteq> [] \<longrightarrow>
        fst (New env N s) = Inr (length (heap s)) \<and> NSEnterBinPath (snd (New env N s)) = NSEnterBinPath s)
   \<and> NFTBinPath (snd (New env N s)) = NFTBinPath s
   \<and> NFTBinPath (snd (execCommand env N input A s)) = NFTBinPath s
   \<and> NSEnterBinPath (snd (execCommand env N input A s)) = NSEnterBinPath s
   \<and> lookups (trace (snd (execCommand env N input A s))) =
       lookups (trace s) @ (if filepath_Base (NSEnterBinPath s) = NSEnterBinPath s
                            then [NSEnterBinPath s] else [])
   \<and> NFTBinPath (snd (ReadConfig env N s)) = NFTBinPath s
   \<and> NSEnterBinPath (snd (ReadConfig env N s)) = NSEnterBinPath s
   \<and> lookups (trace (snd (ReadConfig env N s))) =
       lookups (trace s) @ (if filepath_Base (NSEnterBinPath s) = NSEnterBinPath s
                            then [NSEnterBinPath s] else [])
   \<and> (ApplyConfig env c s = Some (r, s') \<longrightarrow> deref s c = Some doc \<longrightarrow>
        NFTBinPath s' = NFTBinPath s \<and> NSEnterBinPath s' = NSEnterBinPath s
        \<and> lookups (trace s') =
            lookups (trace s) @ (if snd (ToJSON env doc) = None
                                   \<and> filepath_Base (NSEnterBinPath s) = NSEnterBinPath s
                                 then [NSEnterBinPath s] else []))"
proof -
  have n1: "lookups (trace (snd (New env N s))) =
     lookups (trace s) @ (if NSEnterBinPath s = [] then [''nsenter''] else [])"
    by (rule New_cases [where s = s and env = env and N = N]) (simp_all add: lookups_append)
  have n2: "runs (trace (snd (New env N s))) = runs (trace s)"
    by (rule New_cases [where s = s and env = env and N = N]) (simp_all add: runs_append)
  have n3: "NFTBinPath (snd (New env N s)) = NFTBinPath s"
    by (rule New_cases [where s = s and env = env and N = N]) simp_all
  have x: "NFTBinPath (snd (execCommand env N input A s)) = NFTBinPath s"
    "NSEnterBinPath (snd (execCommand env N input A s)) = NSEnterBinPath s"
    "lookups (trace (snd (execCommand env N input A s))) =
       lookups (trace s) @ (if filepath_Base (NSEnterBinPath s) = NSEnterBinPath s
                            then [NSEnterBinPath s] else [])"
    by (simp_all add: snd_execCommand lookups_append lookups_Command_events)
  have i: "lookups (trace (init env s)) = lookups (trace s) @ [''nsenter'', ''nft'']"
    "NSEnterBinPath (init env s) = fst (LookPath env ''nsenter'')"
    "NFTBinPath (init env s) = fst (LookPath env ''nft'')"
    by (simp_all add: init_def emit_def Let_def lookups_append)
  have n4: "NSEnterBinPath s = [] \<longrightarrow> LookPath env ''nsenter'' = (p, Some e) \<longrightarrow>
        fst (New env N s) = Inl e \<and> NSEnterBinPath (snd (New env N s)) = []"
    by (simp add: New_lookup_failed)
  have n5: "NSEnterBinPath s = [] \<longrightarrow> LookPath env ''nsenter'' = (p, None) \<longrightarrow>
        fst (New env N s) = Inr (length (heap s)) \<and> NSEnterBinPath (snd (New env N s)) = p"
    by (simp add: New_lookup_found)
  have n6: "NSEnterBinPath s \<noteq> [] \<longrightarrow>
        fst (New env N s) = Inr (length (heap s)) \<and> NSEnterBinPath (snd (New env N s)) = NSEnterBinPath s"
    by (simp add: New_resolved)
  have a: "ApplyConfig env c s = Some (r, s') \<longrightarrow> deref s c = Some doc \<longrightarrow>
        NFTBinPath s' = NFTBinPath s \<and> NSEnterBinPath s' = NSEnterBinPath s
        \<and> lookups (trace s') =
            lookups (trace s) @ (if snd (ToJSON env doc) = None
                                   \<and> filepath_Base (NSEnterBinPath s) = NSEnterBinPath s
                                 then [NSEnterBinPath s] else [])"
    using state_ApplyConfig(2,3) [of env c s r s'] lookups_ApplyConfig [of env c s r s' doc]
    by blast
  from i n1 n2 n4 n5 n6 n3 x state_ReadConfig [of env N s] a show ?thesis
    by (intro conjI)
qed

theorem New_lazy_lookup_witness:
  "NSEnterBinPath (init bare (start :: nat state)) = []
   \<and> NSEnterBinPath unresolved = []
   \<and> LookPath bare ''nsenter'' = ([], Some (errors_New ''executable file not found in $PATH''))
   \<and> fst (New bare ''/run/netns/a'' unresolved) = Inl (errors_New ''executable file not found in $PATH'')
   \<and> runs (trace (snd (New bare ''/run/netns/a'' unresolved))) = []
   \<and> LookPath host ''nsenter'' = (''/usr/bin/nsenter'', None)
   \<and> fst (New host ''/run/netns/a'' unresolved) = Inr 1
   \<and> NSEnterBinPath (snd (New host ''/run/netns/a'' unresolved)) = ''/usr/bin/nsenter''
   \<and> NSEnterBinPath booted \<noteq> []
   \<and> fst (New host ''/run/netns/a'' booted) = Inr 3
   \<and> ApplyConfig host 1 booted = Some (Some (errors_New ''unsupported value''), booted)
   \<and> deref booted 1 = Some \<lparr>Nftables = None, NetNSPath = ''/run/netns/b''\<rparr>
   \<and> lookups (trace (snd (execCommand host ''/run/netns/a'' None [] (start :: nat state))))
        = [''nsenter'']
   \<and> lookups (trace (snd (execCommand host ''/run/netns/a'' None [] booted))) = []"
proof -
  have u: "NSEnterBinPath unresolved = []" "heap unresolved = [\<lparr>Nftables = Some [7], NetNSPath = ''/run/netns/z''\<rparr>]"
    "trace unresolved = []"
    by (simp_all add: unresolved_def)
  have b: "NSEnterBinPath booted \<noteq> []" "length (heap booted) = 3" "trace booted = []"
    by (simp_all add: booted_def)
  have l1: "LookPath bare ''nsenter'' = ([], Some (errors_New ''executable file not found in $PATH''))"
    by (simp add: bare_def bare_LookPath_def)
  have l2: "LookPath host ''nsenter'' = (''/usr/bin/nsenter'', None)"
    by (simp add: host_def host_LookPath_def)
  have a: "ApplyConfig host 1 booted = Some (Some (errors_New ''unsupported value''), booted)"
    by (simp add: ApplyConfig_def deref_def booted_def ToJSON_def host_def host_Marshal_def)
  note t1 = New_lazy_lookup [where env = bare and s = unresolved and N = "''/run/netns/a''"
      and p = "[]" and e = "errors_New ''executable file not found in $PATH''"]
  note t2 = New_lazy_lookup [where env = host and s = unresolved and N = "''/run/netns/a''"
      and p = "''/usr/bin/nsenter''"]
  have d: "deref booted 1 = Some \<lparr>Nftables = None, NetNSPath = ''/run/netns/b''\<rparr>"
    by (simp add: deref_def booted_def)
  note t3 = New_lazy_lookup [where env = host and s = booted and N = "''/run/netns/a''"
      and c = 1 and r = "Some (errors_New ''unsupported value'')" and s' = booted
      and doc = "\<lparr>Nftables = None, NetNSPath = ''/run/netns/b''\<rparr>" and input = None and A = "[]"]
  note t4 = New_lazy_lookup [where env = host and s = "start :: nat state"
      and N = "''/run/netns/a''" and input = None and A = "[]"]
  have r1: "fst (New bare ''/run/netns/a'' unresolved) = Inl (errors_New ''executable file not found in $PATH'')"
    "runs (trace (snd (New bare ''/run/netns/a'' unresolved))) = []"
    using t1 u l1 by simp_all
  have r2: "fst (New host ''/run/netns/a'' unresolved) = Inr 1"
    "NSEnterBinPath (snd (New host ''/run/netns/a'' unresolved)) = ''/usr/bin/nsenter''"
    using t2 u l2 by simp_all
  have r3: "fst (New host ''/run/netns/a'' booted) = Inr 3"
    using t3 b by simp
  have r4: "NFTBinPath booted = NFTBinPath booted \<and> NSEnterBinPath booted = NSEnterBinPath booted
      \<and> lookups (trace booted) = lookups (trace booted) @
           (if snd (ToJSON host \<lparr>Nftables = None :: nat list option, NetNSPath = ''/run/netns/b''\<rparr>) = None
               \<and> filepath_Base (NSEnterBinPath booted) = NSEnterBinPath booted
            then [NSEnterBinPath booted] else [])"
    using t3 a d by blast
  have r5: "lookups (trace (snd (execCommand host ''/run/netns/a'' None [] booted))) = []"
    using t3 by (simp add: booted_def filepath_Base_def)
  have r6: "lookups (trace (snd (execCommand host ''/run/netns/a'' None [] (start :: nat state))))
        = [''nsenter'']"
    using t4 by (simp add: start_def filepath_Base_def)
  have r0: "NSEnterBinPath (init bare (start :: nat state)) = []"
    using New_lazy_lookup [where env = bare and s = "start :: nat state"] l1 by simp
  from r0 u(1) l1 l2 b(1) a d r1 r2 r3 r5 r6 show ?thesis by simp
qed

subsection \<open>Encoding before applying\<close>

text \<open>
  Claim C6. When encoding the document fails, \<^verbatim>\<open>ApplyConfig\<close> returns the error of
  the encoder and the state is the one it started from: no command was run, nothing
  was logged or looked up.
\<close>

theorem ApplyConfig_encode_failure:
  "deref s c = Some doc \<Longrightarrow> ToJSON env doc = (data, Some e) \<Longrightarrow>
     ApplyConfig env c s = Some (Some e, s)"
  by (rule ApplyConfig_not_encoded)

theorem ApplyConfig_encode_failure_witness:
  "deref booted 1 = Some \<lparr>Nftables = None, NetNSPath = ''/run/netns/b''\<rparr>
   \<and> ToJSON host \<lparr>Nftables = None :: nat list option, NetNSPath = ''/run/netns/b''\<rparr>
       = (None, Some (errors_New ''unsupported value''))
   \<and> ApplyConfig host 1 booted = Some (Some (errors_New ''unsupported value''), booted)"
proof -
  have d: "deref booted 1 = Some \<lparr>Nftables = None, NetNSPath = ''/run/netns/b''\<rparr>"
    by (simp add: deref_def booted_def)
  have j: "ToJSON host \<lparr>Nftables = None :: nat list option, NetNSPath = ''/run/netns/b''\<rparr>
       = (None, Some (errors_New ''unsupported value''))"
    by (simp add: ToJSON_def host_def host_Marshal_def)
  from ApplyConfig_encode_failure [OF d j] d j show ?thesis by (intro conjI)
qed

subsection \<open>Decoding what was read\<close>

text \<open>
  Claim C7. When the executor succeeded and decoding its output fails,
  \<^verbatim>\<open>ReadConfig\<close> is to return no document and an error that wraps the parse error,
  names the operation and leaves the output bytes out. On the host above the listing
  of namespace \<^verbatim>\<open>a\<close> succeeds with the output \<^verbatim>\<open>x\<close>, which does not decode.
  \<^verbatim>\<open>ReadConfig\<close> returns no document, and an error whose message is
  \<^verbatim>\<open>failed to list ruleset: \<close> followed by the text of the parse error; but that
  error wraps nothing, so the parse error is not the one it unwraps to. On the other
  failure path of the same file, the error that \<^verbatim>\<open>execCommand\<close> builds for a rejected
  input does wrap the error of \<^verbatim>\<open>Run\<close>.
\<close>

theorem ReadConfig_decode_error_not_wrapped:
  "fst (execCommand host ''/run/netns/a'' None [''-j'', ''list'', ''ruleset''] booted) = Inr ''x''
   \<and> snd (FromJSON host \<lparr>Nftables = Some [], NetNSPath = ''/run/netns/a''\<rparr> ''x'')
        = Some (errors_New ''invalid character 'x' looking for beginning of value'')
   \<and> fst (ReadConfig host ''/run/netns/a'' booted)
        = Inl (GoError ''failed to list ruleset: invalid character 'x' looking for beginning of value''
                 None)
   \<and> Unwrap (projl (fst (ReadConfig host ''/run/netns/a'' booted))) = None
   \<and> Unwrap (projl (fst (ReadConfig host ''/run/netns/a'' booted)))
        \<noteq> Some (errors_New ''invalid character 'x' looking for beginning of value'')
   \<and> Unwrap (projl (fst (execCommand host ''/run/netns/a'' (Some ''1'') [''-j'', ''-f'', ''-''] booted)))
        = Some (errors_New ''exit status 1'')"
proof -
  have r: "fst (ReadConfig host ''/run/netns/a'' booted)
      = Inl (GoError ''failed to list ruleset: invalid character 'x' looking for beginning of value''
               None)"
    by (rule host_read_a)
  have "Cmd_Run host (buildCmd host booted ''/run/netns/a'' (Some ''1'') [''-j'', ''-f'', ''-''])
       = (Some (errors_New ''exit status 1''), [], ''Error: syntax error'')"
    by (simp add: Cmd_Run_def buildCmd_def exec_Command_def filepath_Base_def fullArgs_def
        booted_def host_def host_StartWait_def)
  then have w: "Unwrap (projl (fst (execCommand host ''/run/netns/a'' (Some ''1'') [''-j'', ''-f'', ''-''] booted)))
        = Some (errors_New ''exit status 1'')"
    by (simp only: fst_execCommand_fail sum.sel Unwrap_execError)
  from host_list_a host_decode_x r w show ?thesis by simp
qed

subsection \<open>Documents\<close>

text \<open>
  Claim C8. \<^verbatim>\<open>ApplyConfig\<close> leaves every document as it was, its own included,
  whatever it returns. \<^verbatim>\<open>ReadConfig\<close>, whatever it returns, leaves every document
  that existed before the call as it was: a document it returns is a new one, and
  the decoder writes to that new document only.
\<close>

theorem documents_not_mutated:
  "(ApplyConfig env c s = Some (r, s') \<longrightarrow> heap s' = heap s \<and> deref s' c = deref s c)
   \<and> take (length (heap s)) (heap (snd (ReadConfig env N s))) = heap s
   \<and> (a < length (heap s) \<longrightarrow> deref (snd (ReadConfig env N s)) a = deref s a)
   \<and> (fst (ReadConfig env N s) = Inr p \<longrightarrow> p = length (heap s) \<and> deref s p = None)"
proof (intro conjI impI)
  assume a: "ApplyConfig env c s = Some (r, s')"
  then show "heap s' = heap s" by (rule state_ApplyConfig(1))
  then show "deref s' c = deref s c" by (simp add: deref_def)
next
  show t: "take (length (heap s)) (heap (snd (ReadConfig env N s))) = heap s"
    by (rule heap_ReadConfig)
  assume a: "a < length (heap s)"
  have l: "length (heap s) \<le> length (heap (snd (ReadConfig env N s)))"
    by (metis t length_take min.cobounded2 min_def nat_le_linear)
  have "heap (snd (ReadConfig env N s)) ! a = take (length (heap s)) (heap (snd (ReadConfig env N s))) ! a"
    using a by simp
  then have "heap (snd (ReadConfig env N s)) ! a = heap s ! a"
    by (simp only: t)
  with a l show "deref (snd (ReadConfig env N s)) a = deref s a"
    by (simp add: deref_def)
next
  assume "fst (ReadConfig env N s) = Inr p"
  then show "p = length (heap s)" by (rule fst_ReadConfig_Inr)
  then show "deref s p = None" by (simp add: deref_def)
qed

theorem documents_not_mutated_witness:
  "(\<exists>e s'. ApplyConfig host 0 booted = Some (Some e, s') \<and> heap s' = heap booted)
   \<and> (\<exists>s'. ApplyConfig host 2 booted = Some (None, s') \<and> heap s' = heap booted)
   \<and> fst (ReadConfig host ''/run/netns/a'' booted)
        = Inl (GoError ''failed to list ruleset: invalid character 'x' looking for beginning of value'' None)
   \<and> (0::nat) < length (heap booted)
   \<and> deref (snd (ReadConfig host ''/run/netns/a'' booted)) 0
        = Some \<lparr>Nftables = Some [7], NetNSPath = ''/run/netns/a''\<rparr>
   \<and> fst (ReadConfig host ''/run/netns/b'' booted) = Inr 3
   \<and> deref booted 3 = None"
proof -
  obtain e s1 where a1: "ApplyConfig host 0 booted = Some (Some e, s1)"
    using host_apply_rejected by blast
  obtain s2 where a2: "ApplyConfig host 2 booted = Some (None, s2)"
    using host_apply_accepted by blast
  have l: "(0::nat) < length (heap booted)"
    by (simp add: booted_def)
  have d: "deref booted 0 = Some \<lparr>Nftables = Some [7], NetNSPath = ''/run/netns/a''\<rparr>"
    by (simp add: deref_def booted_def)
  have h1: "heap s1 = heap booted"
    using documents_not_mutated [where env = host and c = 0 and s = booted and r = "Some e" and s' = s1]
      a1 by blast
  have h2: "heap s2 = heap booted"
    using documents_not_mutated [where env = host and c = 2 and s = booted and r = None and s' = s2]
      a2 by blast
  have h3: "deref (snd (ReadConfig host ''/run/netns/a'' booted)) 0
        = Some \<lparr>Nftables = Some [7], NetNSPath = ''/run/netns/a''\<rparr>"
    using documents_not_mutated [where env = host and s = booted and N = "''/run/netns/a''" and a = 0]
      l d by simp
  have h4: "deref booted 3 = None"
    using documents_not_mutated [where env = host and s = booted and N = "''/run/netns/b''" and p = 3]
      host_read_b by blast
  from a1 h1 a2 h2 host_read_a l h3 host_read_b h4 show ?thesis by blast
qed

subsection \<open>The serialized form\<close>

text \<open>
  Claim C9. The namespace reference is no part of what is encoded: \<^verbatim>\<open>ToJSON\<close> of a
  document does not change when its \<^verbatim>\<open>NetNSPath\<close> does, two documents with the
  same entity sequence encode to the same result, and the standard input of the
  commands that \<^verbatim>\<open>ApplyConfig\<close> runs for two such documents, in whatever states,
  is the same.
\<close>

theorem namespace_not_serialized:
  "ToJSON env (doc\<lparr>NetNSPath := n\<rparr>) = ToJSON env doc
   \<and> (Nftables d1 = Nftables d2 \<longrightarrow> ToJSON env d1 = ToJSON env d2)
   \<and> (deref s1 c1 = Some d1 \<longrightarrow> deref s2 c2 = Some d2 \<longrightarrow> Nftables d1 = Nftables d2 \<longrightarrow>
        ApplyConfig env c1 s1 = Some (r1, s1') \<longrightarrow> ApplyConfig env c2 s2 = Some (r2, s2') \<longrightarrow>
          map Stdin (runs (drop (length (trace s1)) (trace s1')))
            = map Stdin (runs (drop (length (trace s2)) (trace s2'))))"
proof (intro conjI impI)
  show "ToJSON env (doc\<lparr>NetNSPath := n\<rparr>) = ToJSON env doc"
    by (simp add: ToJSON_def)
next
  assume "Nftables d1 = Nftables d2"
  then show "ToJSON env d1 = ToJSON env d2"
    by (simp add: ToJSON_def)
next
  assume d: "deref s1 c1 = Some d1" "deref s2 c2 = Some d2"
    and n: "Nftables d1 = Nftables d2"
    and a: "ApplyConfig env c1 s1 = Some (r1, s1')" "ApplyConfig env c2 s2 = Some (r2, s2')"
  from n have "ToJSON env d1 = ToJSON env d2"
    by (simp add: ToJSON_def)
  then show "map Stdin (runs (drop (length (trace s1)) (trace s1')))
            = map Stdin (runs (drop (length (trace s2)) (trace s2')))"
    by (simp only: new_stdin_ApplyConfig [OF a(1) d(1)] new_stdin_ApplyConfig [OF a(2) d(2)])
qed

theorem namespace_not_serialized_witness:
  "deref booted 0 = Some \<lparr>Nftables = Some [7], NetNSPath = ''/run/netns/a''\<rparr>
   \<and> deref unresolved 0 = Some \<lparr>Nftables = Some [7], NetNSPath = ''/run/netns/z''\<rparr>
   \<and> ToJSON host \<lparr>Nftables = Some [7::nat], NetNSPath = ''/run/netns/a''\<rparr>
        = ToJSON host \<lparr>Nftables = Some [7::nat], NetNSPath = ''/run/netns/z''\<rparr>
   \<and> (\<exists>r1 s1' r2 s2'. ApplyConfig host 0 booted = Some (r1, s1')
         \<and> ApplyConfig host 0 unresolved = Some (r2, s2')
         \<and> map Stdin (runs (drop (length (trace booted)) (trace s1'))) = [Some ''1'']
         \<and> map Stdin (runs (drop (length (trace unresolved)) (trace s2'))) = [Some ''1''])"
proof -
  let ?a = "\<lparr>Nftables = Some [7::nat], NetNSPath = ''/run/netns/a''\<rparr>"
  let ?z = "\<lparr>Nftables = Some [7::nat], NetNSPath = ''/run/netns/z''\<rparr>"
  have d1: "deref booted 0 = Some ?a"
    by (simp add: deref_def booted_def)
  have d2: "deref unresolved 0 = Some ?z"
    by (simp add: deref_def unresolved_def)
  have j: "ToJSON host ?z = (Some ''1'', None)"
    by (simp add: ToJSON_def host_def host_Marshal_def)
  obtain r1 s1' where a1: "ApplyConfig host 0 booted = Some (r1, s1')"
    using host_apply_rejected by blast
  obtain r2 s2' where a2: "ApplyConfig host 0 unresolved = Some (r2, s2')"
    using ApplyConfig_encoded [OF d2 j] by blast
  have n: "Nftables ?a = Nftables ?z" by simp
  note t = namespace_not_serialized [where env = host and ?d1.0 = ?a and ?d2.0 = ?z
      and ?s1.0 = booted and ?s2.0 = unresolved and ?c1.0 = 0 and ?c2.0 = 0
      and ?r1.0 = r1 and ?r2.0 = r2 and ?s1' = s1' and ?s2' = s2']
  have e: "ToJSON host ?a = ToJSON host ?z"
    using t n by blast
  have s: "map Stdin (runs (drop (length (trace booted)) (trace s1')))
            = map Stdin (runs (drop (length (trace unresolved)) (trace s2')))"
    using t d1 d2 n a1 a2 by blast
  have v: "map Stdin (runs (drop (length (trace unresolved)) (trace s2'))) = [Some ''1'']"
    using new_stdin_ApplyConfig [OF a2 d2] by (simp add: j)
  from d1 d2 e a1 a2 s v show ?thesis by (metis (no_types))
qed

subsection \<open>Reading with no path for the namespace-entry tool\<close>

text \<open>
  Claim C10. \<^verbatim>\<open>ReadConfig\<close> runs the command before it calls \<^verbatim>\<open>New\<close>: when the
  executor fails, \<^verbatim>\<open>ReadConfig\<close> returns the executor's error and the state the
  executor left, so no document was allocated. When \<^verbatim>\<open>NSEnterBinPath\<close> is empty,
  \<^verbatim>\<open>Run\<close> refuses the command with \<^verbatim>\<open>exec: no command\<close> and \<^verbatim>\<open>ReadConfig\<close>
  returns the executor's error wrapping it; no lookup is made, \<^verbatim>\<open>NSEnterBinPath\<close>
  stays empty and no document is allocated.
\<close>

theorem ReadConfig_unresolved_path:
  "(fst (execCommand env N None [''-j'', ''list'', ''ruleset''] s) = Inl e \<longrightarrow>
      ReadConfig env N s = (Inl e, snd (execCommand env N None [''-j'', ''list'', ''ruleset''] s))
      \<and> heap (snd (ReadConfig env N s)) = heap s)
   \<and> (NSEnterBinPath s = [] \<longrightarrow>
        fst (ReadConfig env N s) =
          Inl (execError
                \<lparr>Path = [], Args = [[], ''--net='' @ N, ''--'', NFTBinPath s, ''-j'', ''list'', ''ruleset''],
                  Err = None, Stdin = None\<rparr>
                (errors_New ''exec: no command'') None [] [])
        \<and> Unwrap (projl (fst (ReadConfig env N s))) = Some (errors_New ''exec: no command'')
        \<and> prefix ''failed to execute '' (Error (projl (fst (ReadConfig env N s))))
        \<and> runs (trace (snd (ReadConfig env N s))) = runs (trace s) @
            [\<lparr>Path = [], Args = [[], ''--net='' @ N, ''--'', NFTBinPath s, ''-j'', ''list'', ''ruleset''],
              Err = None, Stdin = None\<rparr>]
        \<and> lookups (trace (snd (ReadConfig env N s))) = lookups (trace s)
        \<and> NSEnterBinPath (snd (ReadConfig env N s)) = []
        \<and> heap (snd (ReadConfig env N s)) = heap s)"
proof (intro conjI impI)
  have k: "[''-j'', ''list'', ''ruleset''] = [cmdJSON, cmdList, cmdRuleset]"
    by (simp add: cmdJSON_def cmdList_def cmdRuleset_def)
  {
    assume "fst (execCommand env N None [''-j'', ''list'', ''ruleset''] s) = Inl e"
    then have f: "fst (execCommand env N None [cmdJSON, cmdList, cmdRuleset] s) = Inl e"
      by (simp only: k)
    show "ReadConfig env N s = (Inl e, snd (execCommand env N None [''-j'', ''list'', ''ruleset''] s))"
      unfolding k using f by (rule ReadConfig_exec_fail)
    show "heap (snd (ReadConfig env N s)) = heap s"
      using f by (rule heap_ReadConfig_failed_exec)
  }
  let ?cmd = "\<lparr>Path = [], Args = [[], ''--net='' @ N, ''--'', NFTBinPath s, ''-j'', ''list'', ''ruleset''],
                  Err = None, Stdin = None\<rparr>"
  let ?x = "execError ?cmd (errors_New ''exec: no command'') None [] []"
  assume p: "NSEnterBinPath s = []"
  have b: "buildCmd env s N None [cmdJSON, cmdList, cmdRuleset] = ?cmd"
    using p by (simp add: buildCmd_unresolved k [symmetric])
  have f: "fst (execCommand env N None [cmdJSON, cmdList, cmdRuleset] s) = Inl ?x"
    using fst_execCommand_fail [OF empty_path_no_command [OF p], of env N None "[cmdJSON, cmdList, cmdRuleset]"]
    by (simp only: b)
  have r: "ReadConfig env N s = (Inl ?x, snd (execCommand env N None [cmdJSON, cmdList, cmdRuleset] s))"
    using f by (rule ReadConfig_exec_fail)
  show x: "fst (ReadConfig env N s) = Inl ?x"
    by (simp only: r fst_conv)
  show "Unwrap (projl (fst (ReadConfig env N s))) = Some (errors_New ''exec: no command'')"
    by (simp only: x sum.sel Unwrap_execError)
  show "prefix ''failed to execute '' (Error (projl (fst (ReadConfig env N s))))"
    by (simp only: x sum.sel Error_execError prefixI)
  show "runs (trace (snd (ReadConfig env N s))) = runs (trace s) @ [?cmd]"
    by (simp only: r snd_conv) (simp add: snd_execCommand runs_append runs_Command_events b)
  show "lookups (trace (snd (ReadConfig env N s))) = lookups (trace s)"
    by (simp add: state_ReadConfig(3) p filepath_Base_def)
  show "NSEnterBinPath (snd (ReadConfig env N s)) = []"
    by (simp only: state_ReadConfig(2) p)
  show "heap (snd (ReadConfig env N s)) = heap s"
    using f by (rule heap_ReadConfig_failed_exec)
qed

theorem ReadConfig_unresolved_path_witness:
  "NSEnterBinPath unresolved = []
   \<and> (\<exists>e. fst (execCommand host ''/run/netns/z'' None [''-j'', ''list'', ''ruleset''] unresolved) = Inl e
         \<and> ReadConfig host ''/run/netns/z'' unresolved =
             (Inl e, snd (execCommand host ''/run/netns/z'' None [''-j'', ''list'', ''ruleset''] unresolved)))
   \<and> Unwrap (projl (fst (ReadConfig host ''/run/netns/z'' unresolved)))
        = Some (errors_New ''exec: no command'')
   \<and> runs (trace (snd (ReadConfig host ''/run/netns/z'' unresolved))) =
        [\<lparr>Path = [],
          Args = [[], ''--net=/run/netns/z'', ''--'', ''/usr/sbin/nft'', ''-j'', ''list'', ''ruleset''],
          Err = None, Stdin = None\<rparr>]
   \<and> lookups (trace (snd (ReadConfig host ''/run/netns/z'' unresolved))) = []
   \<and> heap (snd (ReadConfig host ''/run/netns/z'' unresolved)) = heap unresolved"
proof -
  have p: "NSEnterBinPath unresolved = []"
    by (simp add: unresolved_def)
  have v: "NFTBinPath unresolved = ''/usr/sbin/nft''" "trace unresolved = []"
    by (simp_all add: unresolved_def)
  obtain e where f: "fst (execCommand host ''/run/netns/z'' None [''-j'', ''list'', ''ruleset''] unresolved) = Inl e"
    using fst_execCommand_fail [OF empty_path_no_command [OF p]] by blast
  note t = ReadConfig_unresolved_path [where env = host and s = unresolved
      and N = "''/run/netns/z''" and e = e]
  have a: "ReadConfig host ''/run/netns/z'' unresolved =
             (Inl e, snd (execCommand host ''/run/netns/z'' None [''-j'', ''list'', ''ruleset''] unresolved))"
    using t f by blast
  have b: "Unwrap (projl (fst (ReadConfig host ''/run/netns/z'' unresolved)))
        = Some (errors_New ''exec: no command'')"
    "lookups (trace (snd (ReadConfig host ''/run/netns/z'' unresolved))) = lookups (trace unresolved)"
    "heap (snd (ReadConfig host ''/run/netns/z'' unresolved)) = heap unresolved"
    using t p by blast+
  have c: "runs (trace (snd (ReadConfig host ''/run/netns/z'' unresolved))) = runs (trace unresolved) @
        [\<lparr>Path = [],
          Args = [[], ''--net='' @ ''/run/netns/z'', ''--'', NFTBinPath unresolved, ''-j'', ''list'', ''ruleset''],
          Err = None, Stdin = None\<rparr>]"
    using t p by blast
  from p f a b c show ?thesis by (simp add: v)
qed

end
